theory Spec2Isabelle
  imports Complex_Main "HOL-Library.Word"
begin

section \<open>Data model of \<open>GPy/models/ss_gplvm.py\<close>\<close>

text \<open>
  Python floats are embedded as \<^typ>\<open>real\<close>, NumPy's \<open>int32\<close> as \<^typ>\<open>32 word\<close>.
  A two-dimensional NumPy array is its shape, the kind of its element type and its
  entries; entries outside the shape are never read by the definitions below. The element
  type is floating point, integer or boolean: an integer array holds whole numbers, a
  boolean array holds 0 (\<open>False\<close>) and 1 (\<open>True\<close>).
\<close>

datatype dtype = Floating | Integer | Boolean

record ndarray =
  shape0 :: nat
  shape1 :: nat
  dtype :: dtype
  entry :: "nat \<Rightarrow> nat \<Rightarrow> real"

text \<open>
  The conversion NumPy applies, without any error, when a floating-point value is stored
  into an array: an integer array keeps the value truncated towards zero, a boolean array
  keeps whether it is nonzero.
\<close>

definition cast :: "dtype \<Rightarrow> real \<Rightarrow> real" where
  "cast t v = (case t of
                 Floating \<Rightarrow> v
               | Integer \<Rightarrow> of_int (if 0 \<le> v then \<lfloor>v\<rfloor> else \<lceil>v\<rceil>)
               | Boolean \<Rightarrow> (if v = 0 then 0 else 1))"

datatype error =
    ValueError
  | AssertionError
  | KeyError string
  | IndexError
  | Exception string
  | Blocked

text \<open>
  \<open>Blocked\<close> is not a Python exception: it is the outcome of a blocking collective
  receive that never returns because the root issues no matching broadcast.
\<close>

text \<open>\<open>SpikeAndSlabPosterior(X, X_variance, gamma)\<close> with the three gradient slots.\<close>

record posterior =
  mean :: ndarray
  variance :: ndarray
  binary_prob :: ndarray
  mean_gradient :: ndarray
  variance_gradient :: ndarray
  binary_prob_gradient :: ndarray

text \<open>\<open>SpikeAndSlabPrior(pi=pi)\<close>; the field \<open>pi\<close> is named \<open>pi_p\<close> here.\<close>

record prior =
  pi_p :: "real list"
  prior_group_spike_prob :: bool

record kern =
  kern_input_dim :: nat
  lengthscale :: "real list"
  ARD :: bool
  kern_group_spike_prob :: bool

datatype likelihood = Gaussian | Other_likelihood

text \<open>The MPI communicator handle, as far as the model reads it.\<close>

record comm =
  rank :: nat

text \<open>
  The class of the inference method, as the two \<open>isinstance\<close> tests of
  \<open>parameters_changed\<close> see it.
\<close>

datatype inference_method =
    VarDTC_minibatch "comm option"
  | VarDTC_GPU
  | Other_inference

record ssgplvm =
  mpi_comm :: "comm option"
  IN_OPTIMIZATION :: bool
  group_spike :: bool
  init :: string
  variational_prior :: prior
  X :: posterior
  Y :: ndarray
  Z :: ndarray
  kern :: kern
  likelihood :: likelihood
  inference_method :: inference_method
  name :: string
  log_marginal_likelihood :: real
  grad_dict :: "string \<rightharpoonup> ndarray"
  param_array :: "real list"
  Y_local :: "ndarray option"
  X_local :: "posterior option"
  Y_range :: "(nat \<times> nat) option"
  Y_list :: "nat list option"

section \<open>The recomputation cycle\<close>

text \<open>
  The collaborators \<open>parameters_changed\<close> calls and that live outside this file of the
  repository: the base class's cycle, the minibatch engine, the prior's two methods and
  the kernel's expectation gradients.
\<close>

record collaborators =
  SparseGP_parameters_changed :: "ssgplvm \<Rightarrow> ssgplvm"
  update_gradients :: "ssgplvm \<Rightarrow> comm option \<Rightarrow> ssgplvm"
  KL_divergence :: "prior \<Rightarrow> posterior \<Rightarrow> real"
  gradients_qX_expectations ::
    "kern \<Rightarrow> posterior \<Rightarrow> ndarray \<Rightarrow> ndarray \<Rightarrow> ndarray \<Rightarrow> ndarray
      \<Rightarrow> ndarray \<times> ndarray \<times> ndarray"
  update_gradients_KL :: "prior \<Rightarrow> posterior \<Rightarrow> posterior"

definition isinstance_VarDTC_GPU :: "inference_method \<Rightarrow> bool" where
  "isinstance_VarDTC_GPU im = (case im of VarDTC_GPU \<Rightarrow> True | _ \<Rightarrow> False)"

definition isinstance_VarDTC_minibatch :: "inference_method \<Rightarrow> bool" where
  "isinstance_VarDTC_minibatch im = (case im of VarDTC_minibatch c \<Rightarrow> True | _ \<Rightarrow> False)"

text \<open>\<open>self.grad_dict[k]\<close>: a missing key raises \<open>KeyError\<close>.\<close>

definition getitem :: "(string \<rightharpoonup> 'v) \<Rightarrow> string \<Rightarrow> error + 'v" where
  "getitem d k = (case d k of None \<Rightarrow> Inl (KeyError k) | Some v \<Rightarrow> Inr v)"

text \<open>\<open>set_X_gradients\<close>, and the tuple assignment of line 110.\<close>

definition set_X_gradients :: "posterior \<Rightarrow> ndarray \<times> ndarray \<times> ndarray \<Rightarrow> posterior" where
  "set_X_gradients q X_grad =
     (case X_grad of (gm, gv, gb) \<Rightarrow>
        q\<lparr>mean_gradient := gm, variance_gradient := gv, binary_prob_gradient := gb\<rparr>)"

definition get_X_gradients :: "posterior \<Rightarrow> ndarray \<times> ndarray \<times> ndarray" where
  "get_X_gradients q = (mean_gradient q, variance_gradient q, binary_prob_gradient q)"

text \<open>
  \<open>parameters_changed\<close>. An exception leaves the object as mutated so far, so the error
  branch carries the state at the raise.
\<close>

definition parameters_changed ::
  "collaborators \<Rightarrow> ssgplvm \<Rightarrow> (error \<times> ssgplvm) + ssgplvm" where
  "parameters_changed E self =
     (if isinstance_VarDTC_GPU (inference_method self)
         \<or> isinstance_VarDTC_minibatch (inference_method self)
      then Inr (update_gradients E self (mpi_comm self))
      else
        let s1 = SparseGP_parameters_changed E self;
            s2 = s1\<lparr>log_marginal_likelihood :=
                      log_marginal_likelihood s1 - KL_divergence E (variational_prior s1) (X s1)\<rparr>
        in case getitem (grad_dict s2) ''dL_dpsi0'' of
             Inl e \<Rightarrow> Inl (e, s2)
           | Inr d0 \<Rightarrow>
          (case getitem (grad_dict s2) ''dL_dpsi1'' of
             Inl e \<Rightarrow> Inl (e, s2)
           | Inr d1 \<Rightarrow>
          (case getitem (grad_dict s2) ''dL_dpsi2'' of
             Inl e \<Rightarrow> Inl (e, s2)
           | Inr d2 \<Rightarrow>
             let s3 = s2\<lparr>X := set_X_gradients (X s2)
                            (gradients_qX_expectations E (kern s2) (X s2) (Z s2) d0 d1 d2)\<rparr>
             in Inr (s3\<lparr>X := update_gradients_KL E (variational_prior s3) (X s3)\<rparr>))))"

section \<open>The MPI parallelization\<close>

text \<open>
  What one worker sees of the transport: the broadcasts it has issued as root, in order,
  and the broadcasts of the root it has still to receive. \<open>Bcast(buf, root=0)\<close> sends
  \<open>buf\<close> on rank 0 and overwrites \<open>buf\<close> with the root's next payload on every other
  rank. A receive completes only if the root's next payload has the kind and length of
  the buffer; otherwise the worker stays in the collective (\<open>Blocked\<close>).
\<close>

datatype payload = Signal "32 word" | Vector "real list"

record chan =
  outbox :: "payload list"
  inbox :: "payload list"

definition Bcast_int32 :: "comm \<Rightarrow> 32 word \<Rightarrow> chan \<Rightarrow> error + (32 word \<times> chan)" where
  "Bcast_int32 c buf ch =
     (if rank c = 0 then Inr (buf, ch\<lparr>outbox := outbox ch @ [Signal buf]\<rparr>)
      else case inbox ch of
             Signal s # rest \<Rightarrow> Inr (s, ch\<lparr>inbox := rest\<rparr>)
           | _ \<Rightarrow> Inl Blocked)"

definition Bcast_array :: "comm \<Rightarrow> real list \<Rightarrow> chan \<Rightarrow> error + (real list \<times> chan)" where
  "Bcast_array c buf ch =
     (if rank c = 0 then Inr (buf, ch\<lparr>outbox := outbox ch @ [Vector buf]\<rparr>)
      else case inbox ch of
             Vector v # rest \<Rightarrow>
               if length v = length buf then Inr (v, ch\<lparr>inbox := rest\<rparr>) else Inl Blocked
           | _ \<Rightarrow> Inl Blocked)"

text \<open>
  \<open>_set_params_transformed\<close>. The first argument is the base class's method of the same
  name. The result carries the buffer \<open>p\<close>, which a follower's receive overwrites in place.
\<close>

definition set_params_transformed ::
  "(real list \<Rightarrow> ssgplvm \<Rightarrow> ssgplvm) \<Rightarrow> real list \<Rightarrow> chan \<times> ssgplvm
     \<Rightarrow> (error \<times> chan \<times> ssgplvm) + (real list \<times> chan \<times> ssgplvm)" where
  "set_params_transformed super_set p w =
     (let ch = fst w; self = snd w
      in case mpi_comm self of
           None \<Rightarrow> Inr (p, ch, super_set p self)
         | Some c \<Rightarrow>
            (case (if IN_OPTIMIZATION self \<and> rank c = 0 then Bcast_int32 c 1 ch
                   else Inr (1, ch)) of
               Inl e \<Rightarrow> Inl (e, ch, self)
             | Inr (sent, ch1) \<Rightarrow>
                (case Bcast_array c p ch1 of
                   Inl e \<Rightarrow> Inl (e, ch1, self)
                 | Inr (p', ch2) \<Rightarrow> Inr (p', ch2, super_set p' self))))"

text \<open>
  The wait loop of a follower (lines 162 to 170 of \<open>optimize\<close>). \<open>c\<close> is
  \<open>self.mpi_comm\<close>, which the base class's setter does not rebind; \<open>flag\<close> is the
  one-element \<open>int32\<close> buffer and \<open>x\<close> the parameter buffer. The loop has no bound of its
  own, so not returning is the value \<open>None\<close>.
\<close>

partial_function (option) follower_loop ::
  "(real list \<Rightarrow> ssgplvm \<Rightarrow> ssgplvm) \<Rightarrow> comm \<Rightarrow> 32 word \<Rightarrow> real list \<Rightarrow> chan \<times> ssgplvm
     \<Rightarrow> ((error \<times> chan \<times> ssgplvm) + (chan \<times> ssgplvm)) option" where
  "follower_loop super_set c flag x w =
     (case Bcast_int32 c flag (fst w) of
        Inl e \<Rightarrow> Some (Inl (e, fst w, snd w))
      | Inr (flag', ch1) \<Rightarrow>
          if flag' = 1 then
            (case set_params_transformed super_set x (ch1, snd w) of
               Inl e \<Rightarrow> Some (Inl e)
             | Inr (x', w') \<Rightarrow> follower_loop super_set c flag' x' w')
          else if flag' = - 1 then Some (Inr (ch1, snd w))
          else Some (Inl (Exception ''Unrecognizable flag for synchronization!'',
                          ch1, (snd w)\<lparr>IN_OPTIMIZATION := False\<rparr>)))"

text \<open>
  \<open>optimize\<close>. \<open>super_optimize\<close> is the base class's \<open>optimize\<close> with its arguments
  (on rank 0 it is the caller of \<open>_set_params_transformed\<close>, so it works on the transport
  too), \<open>get_params\<close> is \<open>_get_params_transformed\<close>, and \<open>flag0\<close> is the content of the
  buffer \<open>np.empty(1, dtype=np.int32)\<close> before the first receive. An exception leaves
  \<open>__IN_OPTIMIZATION__\<close> as it is at the raise. As in the loop, \<open>c\<close> is \<open>self.mpi_comm\<close>
  throughout the call.
\<close>

definition optimize ::
  "(chan \<times> ssgplvm \<Rightarrow> (error \<times> chan \<times> ssgplvm) + (chan \<times> ssgplvm))
     \<Rightarrow> (real list \<Rightarrow> ssgplvm \<Rightarrow> ssgplvm) \<Rightarrow> (ssgplvm \<Rightarrow> real list) \<Rightarrow> 32 word
     \<Rightarrow> chan \<times> ssgplvm \<Rightarrow> ((error \<times> chan \<times> ssgplvm) + (chan \<times> ssgplvm)) option" where
  "optimize super_optimize super_set get_params flag0 w =
     (let self = (snd w)\<lparr>IN_OPTIMIZATION := True\<rparr>; ch = fst w;
          finish = (\<lambda>r. case r of
                      Inl e \<Rightarrow> Inl e
                    | Inr (ch', s') \<Rightarrow> Inr (ch', s'\<lparr>IN_OPTIMIZATION := False\<rparr>))
      in case mpi_comm self of
           None \<Rightarrow> Some (finish (super_optimize (ch, self)))
         | Some c \<Rightarrow>
             if rank c = 0 then
               (case super_optimize (ch, self) of
                  Inl e \<Rightarrow> Some (Inl e)
                | Inr (ch1, s1) \<Rightarrow>
                   (case Bcast_int32 c (- 1) ch1 of
                      Inl e \<Rightarrow> Some (Inl (e, ch1, s1))
                    | Inr (sent, ch2) \<Rightarrow> Some (finish (Inr (ch2, s1)))))
             else if rank c > 0 then
               map_option finish (follower_loop super_set c flag0 (get_params self) (ch, self))
             else Some (finish (Inr (ch, self))))"

section \<open>Serialization\<close>

text \<open>
  The state dictionary maps attribute names to values; Python's \<open>None\<close> is the value
  \<open>None\<close>. \<open>del dc[k]\<close> raises \<open>KeyError\<close> on a missing key.
\<close>

definition delitem :: "(string \<rightharpoonup> 'v) \<Rightarrow> string \<Rightarrow> error + (string \<rightharpoonup> 'v)" where
  "delitem d k = (if d k = None then Inl (KeyError k) else Inr (d(k := None)))"

text \<open>\<open>__getstate__\<close>; the first argument is the base class's \<open>__getstate__\<close>.\<close>

definition getstate ::
  "(ssgplvm \<Rightarrow> (string \<rightharpoonup> 'v option)) \<Rightarrow> ssgplvm \<Rightarrow> error + (string \<rightharpoonup> 'v option)" where
  "getstate super_getstate self =
     (let dc = (super_getstate self)(''mpi_comm'' \<mapsto> None)
      in if mpi_comm self \<noteq> None then
           (case delitem dc ''Y_local'' of
              Inl e \<Rightarrow> Inl e
            | Inr dc1 \<Rightarrow>
               (case delitem dc1 ''X_local'' of
                  Inl e \<Rightarrow> Inl e
                | Inr dc2 \<Rightarrow> delitem dc2 ''Y_range''))
         else Inr dc)"

section \<open>Construction\<close>

subsection \<open>The NumPy operations of \<open>__init__\<close>\<close>

text \<open>
  \<open>a[:] = v\<close> for a two-dimensional \<open>v\<close>: each dimension of \<open>v\<close> has the extent of \<open>a\<close>
  or extent 1 (and is then repeated); any other shape raises \<open>ValueError\<close>. Every
  assignment into \<open>a\<close> converts the stored value to the element type of \<open>a\<close>.
\<close>

definition setitem_all :: "ndarray \<Rightarrow> ndarray \<Rightarrow> error + ndarray" where
  "setitem_all a v =
     (if (shape0 v = shape0 a \<or> shape0 v = 1) \<and> (shape1 v = shape1 a \<or> shape1 v = 1)
      then Inr (a\<lparr>entry := (\<lambda>i j. cast (dtype a)
                                     (entry v (if shape0 v = 1 then 0 else i)
                                              (if shape1 v = 1 then 0 else j)))\<rparr>)
      else Inl ValueError)"

text \<open>
  \<open>a[:] = v\<close> for a one-dimensional \<open>v\<close>: \<open>v\<close> is aligned with the last dimension of
  \<open>a\<close>, so its length is the number of columns of \<open>a\<close>, or 1.
\<close>

definition setitem_all_1d :: "ndarray \<Rightarrow> real list \<Rightarrow> error + ndarray" where
  "setitem_all_1d a v =
     (if length v = shape1 a \<or> length v = 1
      then Inr (a\<lparr>entry := (\<lambda>i j. cast (dtype a) (v ! (if length v = 1 then 0 else j)))\<rparr>)
      else Inl ValueError)"

text \<open>\<open>a[:] = c\<close> for a scalar \<open>c\<close>.\<close>

definition setitem_scalar :: "ndarray \<Rightarrow> real \<Rightarrow> ndarray" where
  "setitem_scalar a c = a\<lparr>entry := (\<lambda>i j. cast (dtype a) c)\<rparr>"

text \<open>\<open>a[a > c] = c\<close> and \<open>a[a < c] = c\<close>.\<close>

definition setitem_gt :: "ndarray \<Rightarrow> real \<Rightarrow> ndarray" where
  "setitem_gt a c =
     a\<lparr>entry := (\<lambda>i j. if entry a i j > c then cast (dtype a) c else entry a i j)\<rparr>"

definition setitem_lt :: "ndarray \<Rightarrow> real \<Rightarrow> ndarray" where
  "setitem_lt a c =
     a\<lparr>entry := (\<lambda>i j. if entry a i j < c then cast (dtype a) c else entry a i j)\<rparr>"

text \<open>\<open>a[:,0]\<close>: the first column; an array without columns raises \<open>IndexError\<close>.\<close>

definition getcol0 :: "ndarray \<Rightarrow> error + real list" where
  "getcol0 a = (if shape1 a = 0 then Inl IndexError
                else Inr (map (\<lambda>i. entry a i 0) [0..<shape0 a]))"

text \<open>\<open>a[s:e]\<close> on the rows, with Python's clamping of the bounds.\<close>

definition getslice :: "ndarray \<Rightarrow> nat \<Rightarrow> nat \<Rightarrow> ndarray" where
  "getslice a s e =
     \<lparr>shape0 = min e (shape0 a) - min s (shape0 a), shape1 = shape1 a, dtype = dtype a,
      entry = (\<lambda>i j. entry a (i + min s (shape0 a)) j)\<rparr>"

definition posterior_getslice :: "posterior \<Rightarrow> nat \<Rightarrow> nat \<Rightarrow> posterior" where
  "posterior_getslice q s e =
     \<lparr>mean = getslice (mean q) s e, variance = getslice (variance q) s e,
      binary_prob = getslice (binary_prob q) s e,
      mean_gradient = getslice (mean_gradient q) s e,
      variance_gradient = getslice (variance_gradient q) s e,
      binary_prob_gradient = getslice (binary_prob_gradient q) s e\<rparr>"

subsection \<open>\<open>SSGPLVM.__init__\<close>\<close>

record init_args =
  Y_arg :: ndarray
  input_dim :: nat
  X_arg :: "ndarray option"
  X_variance_arg :: "ndarray option"
  init_arg :: string
  num_inducing :: nat
  Z_arg :: "ndarray option"
  kernel_arg :: "kern option"
  inference_method_arg :: "inference_method option"
  likelihood_arg :: "likelihood option"
  name_arg :: string
  group_spike_arg :: bool
  mpi_comm_arg :: "comm option"

text \<open>The call \<open>SSGPLVM(Y, input_dim)\<close> with every other argument at its default.\<close>

definition default_args :: "ndarray \<Rightarrow> nat \<Rightarrow> init_args" where
  "default_args y d =
     \<lparr>Y_arg = y, input_dim = d, X_arg = None, X_variance_arg = None, init_arg = ''PCA'',
      num_inducing = 10, Z_arg = None, kernel_arg = None, inference_method_arg = None,
      likelihood_arg = None, name_arg = ''Spike-and-Slab GPLVM'', group_spike_arg = False,
      mpi_comm_arg = None\<rparr>"

text \<open>
  What construction takes from outside this file: the latent initialisation, the draws of
  the random generator (entry \<open>(i, j)\<close> of \<open>uniform(0, .1, X.shape)\<close> and of
  \<open>randn(N, input_dim)\<close>, the row order of \<open>permutation\<close>), the content of
  uninitialised memory, the gradient slots a fresh posterior starts with, the fields the
  base class's constructor sets, and the partition of the rows among the workers.
\<close>

record init_env =
  initialize_latent :: "string \<Rightarrow> nat \<Rightarrow> ndarray \<Rightarrow> ndarray \<times> real list"
  random_uniform :: "nat \<Rightarrow> nat \<Rightarrow> real"
  random_randn :: "nat \<Rightarrow> nat \<Rightarrow> real"
  random_permutation :: "nat \<Rightarrow> nat"
  uninitialised :: "nat \<Rightarrow> nat \<Rightarrow> real"
  initial_gradient :: "nat \<Rightarrow> nat \<Rightarrow> real"
  SparseGP_init ::
    "posterior \<Rightarrow> ndarray \<Rightarrow> ndarray \<Rightarrow> kern \<Rightarrow> likelihood \<Rightarrow> inference_method
       \<Rightarrow> real \<times> (string \<rightharpoonup> ndarray) \<times> real list"
  divide_data :: "nat \<Rightarrow> comm \<Rightarrow> nat \<times> nat \<times> nat list"

text \<open>
  Lines 47 to 50: the posterior probabilities of the binary variable, perturbed at random
  and clamped. \<open>np.empty_like(X)\<close> has the shape and the element type of \<open>X\<close>; the array
  of normal draws is floating point.
\<close>

definition gamma_perturbed :: "init_env \<Rightarrow> init_args \<Rightarrow> ndarray \<Rightarrow> error + ndarray" where
  "gamma_perturbed E a X0 =
     (let gamma0 = X0\<lparr>entry := uninitialised E\<rparr>
      in case setitem_all gamma0
                \<lparr>shape0 = shape0 X0, shape1 = input_dim a, dtype = Floating,
                 entry = (\<lambda>i j. 0.5 + 0.1 * random_randn E i j)\<rparr> of
           Inl e \<Rightarrow> Inl e
         | Inr gamma1 \<Rightarrow>
            (let gamma2 = setitem_gt gamma1 (1 - 1 / 10 ^ 9);
                 gamma3 = setitem_lt gamma2 (1 / 10 ^ 9)
             in Inr gamma3))"

text \<open>Lines 51 to 54: the constant assignment and the grouping.\<close>

definition init_gamma :: "init_env \<Rightarrow> init_args \<Rightarrow> ndarray \<Rightarrow> error + ndarray" where
  "init_gamma E a X0 =
     (case gamma_perturbed E a X0 of
        Inl e \<Rightarrow> Inl e
      | Inr gamma3 \<Rightarrow>
         (let gamma4 = setitem_scalar gamma3 0.5
          in if group_spike_arg a then
               (case getcol0 gamma4 of
                  Inl e \<Rightarrow> Inl e
                | Inr col \<Rightarrow> setitem_all_1d gamma4 col)
             else Inr gamma4))"

text \<open>Lines 56 to 58: the inducing inputs and the assertion on their width.\<close>

definition init_Z :: "init_env \<Rightarrow> init_args \<Rightarrow> ndarray \<Rightarrow> error + ndarray" where
  "init_Z E a X0 =
     (let Z0 = (case Z_arg a of
                  None \<Rightarrow> \<lparr>shape0 = min (num_inducing a) (shape0 X0), shape1 = shape1 X0,
                           dtype = dtype X0,
                           entry = (\<lambda>i j. entry X0 (random_permutation E i) j)\<rparr>
                | Some z \<Rightarrow> z)
      in if shape1 Z0 = shape1 X0 then Inr Z0 else Inl AssertionError)"

text \<open>
  The constructor. Shapes and \<open>input_dim\<close> are natural numbers. \<open>X == None\<close> is true for
  \<open>None\<close> and false for an array, as in the NumPy the file was written for (a later
  NumPy compares elementwise and makes the \<open>if\<close> raise for an array of more than one
  element, which only removes successful runs). The base class's constructor and the two
  \<open>add_parameter\<close> calls are \<open>SparseGP_init\<close>; \<open>SpikeAndSlabPrior(pi=pi)\<close> starts with
  its grouping flag off; \<open>SpikeAndSlabPosterior\<close> keeps the three arrays as they are
  passed and starts with floating-point gradient slots; the \<open>print\<close> of line 91 has no
  effect on the object.
\<close>

definition SSGPLVM_init :: "init_env \<Rightarrow> init_args \<Rightarrow> chan \<Rightarrow> error + (chan \<times> ssgplvm)" where
  "SSGPLVM_init E a ch =
     (let Xf = (case X_arg a of
                  None \<Rightarrow> initialize_latent E (init_arg a) (input_dim a) (Y_arg a)
                | Some x \<Rightarrow> (x, replicate (input_dim a) 1));
          X0 = fst Xf; fracs = snd Xf;
          X_variance = (case X_variance_arg a of
                          None \<Rightarrow> X0\<lparr>dtype := Floating,
                                      entry := (\<lambda>i j. random_uniform E i j)\<rparr>
                        | Some v \<Rightarrow> v)
      in case init_gamma E a X0 of
           Inl e \<Rightarrow> Inl e
         | Inr gamma \<Rightarrow>
        (case init_Z E a X0 of
           Inl e \<Rightarrow> Inl e
         | Inr Z0 \<Rightarrow>
            (let pi0 = replicate (input_dim a) 0.5;
                 likelihood0 = (case likelihood_arg a of None \<Rightarrow> Gaussian | Some l \<Rightarrow> l);
                 kernel0 = (case kernel_arg a of
                              None \<Rightarrow> \<lparr>kern_input_dim = input_dim a, lengthscale = fracs,
                                       ARD = True, kern_group_spike_prob = False\<rparr>
                            | Some k \<Rightarrow> k);
                 inference_method0 = (case inference_method_arg a of
                                        None \<Rightarrow> VarDTC_minibatch (mpi_comm_arg a)
                                      | Some im \<Rightarrow> im);
                 prior0 = \<lparr>pi_p = pi0, prior_group_spike_prob = False\<rparr>;
                 Xq = \<lparr>mean = X0, variance = X_variance, binary_prob = gamma,
                       mean_gradient = X0\<lparr>dtype := Floating, entry := initial_gradient E\<rparr>,
                       variance_gradient =
                         X_variance\<lparr>dtype := Floating, entry := initial_gradient E\<rparr>,
                       binary_prob_gradient =
                         gamma\<lparr>dtype := Floating, entry := initial_gradient E\<rparr>\<rparr>;
                 kernel1 = (if group_spike_arg a
                            then kernel0\<lparr>kern_group_spike_prob := True\<rparr> else kernel0);
                 prior1 = (if group_spike_arg a
                           then prior0\<lparr>prior_group_spike_prob := True\<rparr> else prior0);
                 base = SparseGP_init E Xq (Y_arg a) Z0 kernel1 likelihood0 inference_method0;
                 self = \<lparr>mpi_comm = mpi_comm_arg a, IN_OPTIMIZATION = False,
                         group_spike = group_spike_arg a, init = init_arg a,
                         variational_prior = prior1, X = Xq, Y = Y_arg a, Z = Z0,
                         kern = kernel1, likelihood = likelihood0,
                         inference_method = inference_method0, name = name_arg a,
                         log_marginal_likelihood = fst base, grad_dict = fst (snd base),
                         param_array = snd (snd base),
                         Y_local = None, X_local = None, Y_range = None, Y_list = None\<rparr>
             in case mpi_comm_arg a of
                  None \<Rightarrow> Inr (ch, self)
                | Some c \<Rightarrow>
                   (let part = divide_data E (shape0 (Y_arg a)) c;
                        Y_start = fst part; Y_end = fst (snd part);
                        self1 = self\<lparr>Y_local := Some (getslice (Y self) Y_start Y_end),
                                     X_local := Some (posterior_getslice (X self) Y_start Y_end),
                                     Y_range := Some (Y_start, Y_end),
                                     Y_list := Some (snd (snd part))\<rparr>
                    in case Bcast_array c (param_array self1) ch of
                         Inl e \<Rightarrow> Inl e
                       | Inr (p, ch1) \<Rightarrow> Inr (ch1, self1\<lparr>param_array := p\<rparr>)))))"

section \<open>The prior's gradient update\<close>

text \<open>
  Modelled from the spec: \<open>SpikeAndSlabPrior.update_gradients_KL\<close>, whose source
  (\<open>GPy/core/parameterization/variational.py\<close>) is not part of the files at hand. The spec
  has it compute the gradient of the KL term with respect to each posterior parameter
  (mean, variance, binary_prob) and add it into the posterior's existing gradient slots.
  \<open>KL_gradient\<close> is that gradient, a function of the prior and of the three parameter
  arrays; \<open>iadd\<close> is the in-place \<open>+=\<close> on a slot.
\<close>

definition iadd :: "ndarray \<Rightarrow> ndarray \<Rightarrow> ndarray" where
  "iadd a g = a\<lparr>entry := (\<lambda>i j. entry a i j + entry g i j)\<rparr>"

definition update_gradients_KL_spec ::
  "(prior \<Rightarrow> ndarray \<Rightarrow> ndarray \<Rightarrow> ndarray \<Rightarrow> ndarray \<times> ndarray \<times> ndarray)
     \<Rightarrow> prior \<Rightarrow> posterior \<Rightarrow> posterior" where
  "update_gradients_KL_spec KL_gradient pr q =
     (case KL_gradient pr (mean q) (variance q) (binary_prob q) of (gm, gv, gb) \<Rightarrow>
        q\<lparr>mean_gradient := iadd (mean_gradient q) gm,
          variance_gradient := iadd (variance_gradient q) gv,
          binary_prob_gradient := iadd (binary_prob_gradient q) gb\<rparr>)"

text \<open>\<open>np.zeros_like\<close> on the three slots.\<close>

definition zero_gradients :: "posterior \<Rightarrow> posterior" where
  "zero_gradients q =
     q\<lparr>mean_gradient := (mean_gradient q)\<lparr>entry := (\<lambda>i j. 0)\<rparr>,
       variance_gradient := (variance_gradient q)\<lparr>entry := (\<lambda>i j. 0)\<rparr>,
       binary_prob_gradient := (binary_prob_gradient q)\<lparr>entry := (\<lambda>i j. 0)\<rparr>\<rparr>"

section \<open>Reading results, and concrete inputs\<close>

text \<open>The object after a call, whether the call returned or raised.\<close>

definition state_after :: "(error \<times> ssgplvm) + ssgplvm \<Rightarrow> ssgplvm" where
  "state_after r = (case r of Inl es \<Rightarrow> snd es | Inr s \<Rightarrow> s)"

definition const_array :: "nat \<Rightarrow> nat \<Rightarrow> real \<Rightarrow> ndarray" where
  "const_array n d c = \<lparr>shape0 = n, shape1 = d, dtype = Floating, entry = (\<lambda>i j. c)\<rparr>"

definition example_posterior :: posterior where
  "example_posterior =
     \<lparr>mean = const_array 2 2 3, variance = const_array 2 2 1,
      binary_prob = const_array 2 2 (1 / 2),
      mean_gradient = const_array 2 2 0, variance_gradient = const_array 2 2 0,
      binary_prob_gradient = const_array 2 2 0\<rparr>"

definition example_model :: "inference_method \<Rightarrow> comm option \<Rightarrow> bool \<Rightarrow> ssgplvm" where
  "example_model im c opt =
     \<lparr>mpi_comm = c, IN_OPTIMIZATION = opt, group_spike = False, init = ''PCA'',
      variational_prior = \<lparr>pi_p = [1 / 2, 1 / 2], prior_group_spike_prob = False\<rparr>,
      X = example_posterior, Y = const_array 2 3 1, Z = const_array 1 2 0,
      kern = \<lparr>kern_input_dim = 2, lengthscale = [1, 1], ARD = True,
              kern_group_spike_prob = False\<rparr>,
      likelihood = Gaussian, inference_method = im, name = ''Spike-and-Slab GPLVM'',
      log_marginal_likelihood = 0, grad_dict = Map.empty, param_array = [0, 0],
      Y_local = None, X_local = None, Y_range = None, Y_list = None\<rparr>"

definition example_KL_gradient ::
  "prior \<Rightarrow> ndarray \<Rightarrow> ndarray \<Rightarrow> ndarray \<Rightarrow> ndarray \<times> ndarray \<times> ndarray" where
  "example_KL_gradient pr m v b = (m, v, b)"

definition example_collaborators :: collaborators where
  "example_collaborators =
     \<lparr>SparseGP_parameters_changed =
        (\<lambda>s. s\<lparr>log_marginal_likelihood := - 10,
                grad_dict := [''dL_dpsi0'' \<mapsto> const_array 2 1 1,
                              ''dL_dpsi1'' \<mapsto> const_array 2 1 1,
                              ''dL_dpsi2'' \<mapsto> const_array 1 1 1]\<rparr>),
      update_gradients = (\<lambda>s c. s\<lparr>log_marginal_likelihood := - 12\<rparr>),
      KL_divergence = (\<lambda>pr q. 3),
      gradients_qX_expectations =
        (\<lambda>k q z d0 d1 d2. (const_array 2 2 5, const_array 2 2 6, const_array 2 2 7)),
      update_gradients_KL = update_gradients_KL_spec example_KL_gradient\<rparr>"

text \<open>A base-class setter that stores the vector, and a transport with nothing in flight.\<close>

definition example_super_set :: "real list \<Rightarrow> ssgplvm \<Rightarrow> ssgplvm" where
  "example_super_set p s = s\<lparr>param_array := p\<rparr>"

definition empty_chan :: chan where
  "empty_chan = \<lparr>outbox = [], inbox = []\<rparr>"

text \<open>The broadcasts a worker has issued once \<open>_set_params_transformed\<close> has returned.\<close>

definition broadcasts_of ::
  "(error \<times> chan \<times> ssgplvm) + (real list \<times> chan \<times> ssgplvm) \<Rightarrow> payload list option" where
  "broadcasts_of r = (case r of Inl e \<Rightarrow> None | Inr pcs \<Rightarrow> Some (outbox (fst (snd pcs))))"

text \<open>A base-class snapshot that holds the attributes the constructor sets.\<close>

definition example_getstate :: "ssgplvm \<Rightarrow> (string \<rightharpoonup> nat option)" where
  "example_getstate s =
     [''name'' \<mapsto> Some 1, ''mpi_comm'' \<mapsto> Some 2, ''Y_local'' \<mapsto> Some 3,
      ''X_local'' \<mapsto> Some 4, ''Y_range'' \<mapsto> Some 5, ''Y_list'' \<mapsto> Some 6]"

text \<open>
  Collaborators of the constructor for a run by hand: the initialisation returns an
  \<open>N \<times> input_dim\<close> array of zeros, every normal draw is 1 (or \<open>- 7\<close>), the permutation
  is the identity.
\<close>

definition example_env :: init_env where
  "example_env =
     \<lparr>initialize_latent = (\<lambda>m d y. (const_array (shape0 y) d 0, replicate d 1)),
      random_uniform = (\<lambda>i j. 1 / 20), random_randn = (\<lambda>i j. 1),
      random_permutation = (\<lambda>i. i), uninitialised = (\<lambda>i j. 0),
      initial_gradient = (\<lambda>i j. 0),
      SparseGP_init = (\<lambda>q y z k l im. (0, Map.empty, [0, 0])),
      divide_data = (\<lambda>n c. (0, n, [n]))\<rparr>"

definition example_randn2 :: "nat \<Rightarrow> nat \<Rightarrow> real" where
  "example_randn2 i j = - 7"


text \<open>One entry of an array result, and of the constructed \<open>binary_prob\<close>.\<close>

definition entry_of :: "error + ndarray \<Rightarrow> nat \<Rightarrow> nat \<Rightarrow> real option" where
  "entry_of r i j = (case r of Inl e \<Rightarrow> None | Inr a \<Rightarrow> Some (entry a i j))"

definition binary_prob_after :: "error + (chan \<times> ssgplvm) \<Rightarrow> nat \<Rightarrow> nat \<Rightarrow> real option" where
  "binary_prob_after r i j =
     (case r of Inl e \<Rightarrow> None | Inr cm \<Rightarrow> Some (entry (binary_prob (X (snd cm))) i j))"


section \<open>The evidence and its gradients\<close>

text \<open>
  Claim C1. In a cycle that is not handed to the minibatch or GPU engine, the evidence the
  model holds after \<open>parameters_changed\<close> is the evidence of the base computation minus
  the prior's KL divergence of the posterior. This holds whether the call returns or
  raises at the gradient dictionary, since the subtraction comes first.
\<close>

theorem parameters_changed_evidence:
  assumes "\<not> isinstance_VarDTC_GPU (inference_method self)"
    and "\<not> isinstance_VarDTC_minibatch (inference_method self)"
  shows "log_marginal_likelihood (state_after (parameters_changed E self)) =
           log_marginal_likelihood (SparseGP_parameters_changed E self)
           - KL_divergence E (variational_prior (SparseGP_parameters_changed E self))
                             (X (SparseGP_parameters_changed E self))"
  using assms
  by (simp add: parameters_changed_def state_after_def Let_def split: sum.splits)

theorem parameters_changed_evidence_witness:
  "\<not> isinstance_VarDTC_GPU (inference_method (example_model Other_inference None False))
   \<and> \<not> isinstance_VarDTC_minibatch (inference_method (example_model Other_inference None False))
   \<and> log_marginal_likelihood
        (state_after (parameters_changed example_collaborators
                        (example_model Other_inference None False))) = - 10 - 3"
  using parameters_changed_evidence
          [of "example_model Other_inference None False" example_collaborators]
  by (simp add: example_model_def example_collaborators_def isinstance_VarDTC_GPU_def
        isinstance_VarDTC_minibatch_def)

text \<open>
  Claim C2. When the inference method is a \<open>VarDTC_minibatch\<close> or a \<open>VarDTC_GPU\<close>,
  \<open>parameters_changed\<close> returns what \<open>update_gradients\<close> leaves and nothing else: no KL
  term is subtracted and no gradient slot is written by the method itself.
\<close>

theorem parameters_changed_bypass:
  assumes "isinstance_VarDTC_minibatch (inference_method self)
           \<or> isinstance_VarDTC_GPU (inference_method self)"
  shows "parameters_changed E self = Inr (update_gradients E self (mpi_comm self))"
  using assms by (auto simp add: parameters_changed_def)

theorem parameters_changed_bypass_witness:
  "(isinstance_VarDTC_minibatch (inference_method (example_model (VarDTC_minibatch None) None False))
    \<or> isinstance_VarDTC_GPU (inference_method (example_model (VarDTC_minibatch None) None False)))
   \<and> parameters_changed example_collaborators (example_model (VarDTC_minibatch None) None False)
       = Inr ((example_model (VarDTC_minibatch None) None False)
                \<lparr>log_marginal_likelihood := - 12\<rparr>)"
  using parameters_changed_bypass
          [of "example_model (VarDTC_minibatch None) None False" example_collaborators]
  by (simp add: example_model_def example_collaborators_def isinstance_VarDTC_GPU_def
        isinstance_VarDTC_minibatch_def)

text \<open>
  With every argument at its default the constructor picks the minibatch inference, so the
  cycle of the constructed model is the engine's, whatever the other collaborators are.
\<close>

lemma default_construction_bypass:
  assumes "SSGPLVM_init E (default_args y d) ch = Inr (ch', m)"
  shows "parameters_changed C m = Inr (update_gradients C m None)"
  using assms
  by (auto simp add: SSGPLVM_init_def default_args_def parameters_changed_def
        isinstance_VarDTC_minibatch_def Let_def split: sum.splits)

text \<open>
  Claim C5. In the cycle that is not handed over, the kernel's expectation gradients are
  written into the three slots first and the prior's update then works on those slots.
  With the prior's update as the spec describes it, an in-place addition of the KL
  gradient, each slot ends as kernel gradient plus KL gradient; and two updates from
  zeroed slots leave exactly twice what one update leaves.
\<close>

theorem gradients_accumulate:
  assumes "\<not> isinstance_VarDTC_GPU (inference_method self)"
    and "\<not> isinstance_VarDTC_minibatch (inference_method self)"
    and "s1 = SparseGP_parameters_changed E self"
    and "grad_dict s1 ''dL_dpsi0'' = Some d0"
    and "grad_dict s1 ''dL_dpsi1'' = Some d1"
    and "grad_dict s1 ''dL_dpsi2'' = Some d2"
    and "update_gradients_KL E = update_gradients_KL_spec g"
    and "kg = gradients_qX_expectations E (kern s1) (X s1) (Z s1) d0 d1 d2"
    and "klg = g (variational_prior s1) (mean (X s1)) (variance (X s1)) (binary_prob (X s1))"
    and "once = update_gradients_KL_spec g pr (zero_gradients q)"
    and "twice = update_gradients_KL_spec g pr once"
  shows "(\<exists>s'. parameters_changed E self = Inr s'
            \<and> entry (mean_gradient (X s')) i j
                = entry (fst kg) i j + entry (fst klg) i j
            \<and> entry (variance_gradient (X s')) i j
                = entry (fst (snd kg)) i j + entry (fst (snd klg)) i j
            \<and> entry (binary_prob_gradient (X s')) i j
                = entry (snd (snd kg)) i j + entry (snd (snd klg)) i j)
         \<and> entry (mean_gradient twice) i j = 2 * entry (mean_gradient once) i j
         \<and> entry (variance_gradient twice) i j = 2 * entry (variance_gradient once) i j
         \<and> entry (binary_prob_gradient twice) i j = 2 * entry (binary_prob_gradient once) i j"
  using assms
  by (simp add: parameters_changed_def getitem_def Let_def set_X_gradients_def
        update_gradients_KL_spec_def zero_gradients_def iadd_def split: prod.splits)

theorem gradients_accumulate_witness:
  "\<not> isinstance_VarDTC_GPU (inference_method (example_model Other_inference None False))
   \<and> \<not> isinstance_VarDTC_minibatch (inference_method (example_model Other_inference None False))
   \<and> grad_dict (SparseGP_parameters_changed example_collaborators
                  (example_model Other_inference None False)) ''dL_dpsi0''
       = Some (const_array 2 1 1)
   \<and> grad_dict (SparseGP_parameters_changed example_collaborators
                  (example_model Other_inference None False)) ''dL_dpsi1''
       = Some (const_array 2 1 1)
   \<and> grad_dict (SparseGP_parameters_changed example_collaborators
                  (example_model Other_inference None False)) ''dL_dpsi2''
       = Some (const_array 1 1 1)
   \<and> update_gradients_KL example_collaborators = update_gradients_KL_spec example_KL_gradient
   \<and> (\<exists>s'. parameters_changed example_collaborators
              (example_model Other_inference None False) = Inr s'
          \<and> entry (mean_gradient (X s')) 0 1 = 5 + 3
          \<and> entry (variance_gradient (X s')) 0 1 = 6 + 1
          \<and> entry (binary_prob_gradient (X s')) 0 1 = 7 + 1 / 2)
   \<and> entry (mean_gradient
              (update_gradients_KL_spec example_KL_gradient
                 (variational_prior (example_model Other_inference None False))
                 (update_gradients_KL_spec example_KL_gradient
                    (variational_prior (example_model Other_inference None False))
                    (zero_gradients example_posterior)))) 0 1 = 2 * 3"
  using gradients_accumulate
          [of "example_model Other_inference None False"
              "SparseGP_parameters_changed example_collaborators
                 (example_model Other_inference None False)"
              example_collaborators
              "const_array 2 1 1" "const_array 2 1 1" "const_array 1 1 1"
              example_KL_gradient
              "(const_array 2 2 5, const_array 2 2 6, const_array 2 2 7)"
              "(const_array 2 2 3, const_array 2 2 1, const_array 2 2 (1 / 2))"
              "update_gradients_KL_spec example_KL_gradient
                 (variational_prior (example_model Other_inference None False))
                 (zero_gradients example_posterior)"
              "variational_prior (example_model Other_inference None False)"
              example_posterior
              "update_gradients_KL_spec example_KL_gradient
                    (variational_prior (example_model Other_inference None False))
                    (update_gradients_KL_spec example_KL_gradient
                    (variational_prior (example_model Other_inference None False))
                    (zero_gradients example_posterior))"
              0 1]
  by (simp add: example_model_def example_collaborators_def isinstance_VarDTC_GPU_def
        isinstance_VarDTC_minibatch_def example_KL_gradient_def example_posterior_def
        const_array_def update_gradients_KL_spec_def zero_gradients_def iadd_def)

section \<open>The synchronization protocol\<close>

text \<open>
  Claim C3, as stated, fails outside an optimization: rank 0 then sends no signal, but it
  still broadcasts the parameter vector.
\<close>

theorem set_params_outside_session_broadcasts:
  "broadcasts_of (set_params_transformed example_super_set [1, 2]
        (empty_chan, example_model Other_inference (Some \<lparr>rank = 0\<rparr>) False))
     = Some [Vector [1, 2]]"
  by (simp add: set_params_transformed_def Bcast_int32_def Bcast_array_def
        example_model_def broadcasts_of_def empty_chan_def)

text \<open>
  Claim C3, amended. When rank 0 sets the parameter vector during an optimization it
  broadcasts the signal 1 and then the vector; outside an optimization it broadcasts the
  vector alone, without a signal. In both cases the base class's setter then runs.
\<close>

theorem set_params_transformed_root:
  assumes "mpi_comm self = Some c" and "rank c = 0"
  shows "set_params_transformed super_set p (ch, self) =
           Inr (p,
                ch\<lparr>outbox := outbox ch @ (if IN_OPTIMIZATION self
                                          then [Signal 1, Vector p] else [Vector p])\<rparr>,
                super_set p self)"
  using assms
  by (simp add: set_params_transformed_def Bcast_int32_def Bcast_array_def)

theorem set_params_transformed_root_witness:
  "mpi_comm (example_model Other_inference (Some \<lparr>rank = 0\<rparr>) True) = Some \<lparr>rank = 0\<rparr>
   \<and> rank \<lparr>rank = 0\<rparr> = 0
   \<and> broadcasts_of (set_params_transformed example_super_set [1, 2]
        (empty_chan, example_model Other_inference (Some \<lparr>rank = 0\<rparr>) True))
       = Some [Signal 1, Vector [1, 2]]"
  using set_params_transformed_root
          [of "example_model Other_inference (Some \<lparr>rank = 0\<rparr>) True" "\<lparr>rank = 0\<rparr>"
              example_super_set "[1, 2]" empty_chan]
  by (simp add: example_model_def broadcasts_of_def empty_chan_def)

text \<open>
  Claim C4. A follower in the wait loop that receives 1 receives the parameter vector,
  applies it and waits again; one that receives \<open>- 1\<close> leaves the loop, and \<open>optimize\<close>
  clears the flag and returns; one that receives anything else raises, in the loop and so
  in \<open>optimize\<close>.
\<close>

theorem follower_loop_signal:
  assumes "0 < rank c"
  shows "(mpi_comm self = Some c \<and> length v = length x \<longrightarrow>
            follower_loop super_set c flag x (ch\<lparr>inbox := Signal 1 # Vector v # rest\<rparr>, self)
              = follower_loop super_set c 1 v (ch\<lparr>inbox := rest\<rparr>, super_set v self))
         \<and> follower_loop super_set c flag x (ch\<lparr>inbox := Signal (- 1) # rest\<rparr>, self)
              = Some (Inr (ch\<lparr>inbox := rest\<rparr>, self))
         \<and> (mpi_comm self = Some c \<longrightarrow>
              optimize super_optimize super_set get_params flag
                (ch\<lparr>inbox := Signal (- 1) # rest\<rparr>, self)
                = Some (Inr (ch\<lparr>inbox := rest\<rparr>, self\<lparr>IN_OPTIMIZATION := False\<rparr>)))
         \<and> (f \<noteq> 1 \<and> f \<noteq> - 1 \<longrightarrow>
              follower_loop super_set c flag x (ch\<lparr>inbox := Signal f # rest\<rparr>, self)
                = Some (Inl (Exception ''Unrecognizable flag for synchronization!'',
                             ch\<lparr>inbox := rest\<rparr>, self\<lparr>IN_OPTIMIZATION := False\<rparr>)))
         \<and> (f \<noteq> 1 \<and> f \<noteq> - 1 \<and> mpi_comm self = Some c \<longrightarrow>
              optimize super_optimize super_set get_params flag
                (ch\<lparr>inbox := Signal f # rest\<rparr>, self)
                = Some (Inl (Exception ''Unrecognizable flag for synchronization!'',
                             ch\<lparr>inbox := rest\<rparr>, self\<lparr>IN_OPTIMIZATION := False\<rparr>)))"
proof -
  have one: "follower_loop super_set c flag x (ch\<lparr>inbox := Signal 1 # Vector v # rest\<rparr>, self)
          = follower_loop super_set c 1 v (ch\<lparr>inbox := rest\<rparr>, super_set v self)"
    if "mpi_comm self = Some c \<and> length v = length x"
    using assms that
    by (subst follower_loop.simps)
       (simp add: Bcast_int32_def Bcast_array_def set_params_transformed_def)
  have stop: "follower_loop super_set c flag y (ch\<lparr>inbox := Signal (- 1) # rest\<rparr>, s)
          = Some (Inr (ch\<lparr>inbox := rest\<rparr>, s))" for y s
    using assms
    by (subst follower_loop.simps) (simp add: Bcast_int32_def)
  have bad: "follower_loop super_set c flag y (ch\<lparr>inbox := Signal f # rest\<rparr>, s)
                = Some (Inl (Exception ''Unrecognizable flag for synchronization!'',
                             ch\<lparr>inbox := rest\<rparr>, s\<lparr>IN_OPTIMIZATION := False\<rparr>))"
    if "f \<noteq> 1 \<and> f \<noteq> - 1" for y s
    using assms that
    by (subst follower_loop.simps) (simp add: Bcast_int32_def)
  have opt_stop: "optimize super_optimize super_set get_params flag
                (ch\<lparr>inbox := Signal (- 1) # rest\<rparr>, self)
                = Some (Inr (ch\<lparr>inbox := rest\<rparr>, self\<lparr>IN_OPTIMIZATION := False\<rparr>))"
    if "mpi_comm self = Some c"
    using assms that by (simp add: optimize_def Let_def stop)
  have opt_bad: "optimize super_optimize super_set get_params flag
                (ch\<lparr>inbox := Signal f # rest\<rparr>, self)
                = Some (Inl (Exception ''Unrecognizable flag for synchronization!'',
                             ch\<lparr>inbox := rest\<rparr>, self\<lparr>IN_OPTIMIZATION := False\<rparr>))"
    if "f \<noteq> 1 \<and> f \<noteq> - 1 \<and> mpi_comm self = Some c"
    using assms that by (simp add: optimize_def Let_def bad)
  from one stop bad opt_stop opt_bad show ?thesis by blast
qed

theorem follower_loop_signal_witness:
  "0 < rank \<lparr>rank = 1\<rparr>
   \<and> mpi_comm (example_model Other_inference (Some \<lparr>rank = 1\<rparr>) True) = Some \<lparr>rank = 1\<rparr>
   \<and> length [5, 6 :: real] = length [0, 0 :: real]
   \<and> follower_loop example_super_set \<lparr>rank = 1\<rparr> 0 [0, 0]
        (empty_chan\<lparr>inbox := [Signal 1, Vector [5, 6], Signal (- 1)]\<rparr>,
         example_model Other_inference (Some \<lparr>rank = 1\<rparr>) True)
       = Some (Inr (empty_chan,
                    example_super_set [5, 6]
                      (example_model Other_inference (Some \<lparr>rank = 1\<rparr>) True)))
   \<and> (7 :: 32 word) \<noteq> 1 \<and> (7 :: 32 word) \<noteq> - 1
   \<and> follower_loop example_super_set \<lparr>rank = 1\<rparr> 0 [0, 0]
        (empty_chan\<lparr>inbox := [Signal 7]\<rparr>,
         example_model Other_inference (Some \<lparr>rank = 1\<rparr>) True)
       = Some (Inl (Exception ''Unrecognizable flag for synchronization!'', empty_chan,
                    example_model Other_inference (Some \<lparr>rank = 1\<rparr>) False))"
  using follower_loop_signal
          [where c = "\<lparr>rank = 1\<rparr>"
             and self = "example_model Other_inference (Some \<lparr>rank = 1\<rparr>) True"
             and v = "[5, 6]" and x = "[0, 0]" and super_set = example_super_set
             and flag = 0 and ch = empty_chan and rest = "[Signal (- 1)]" and f = 7]
        follower_loop_signal
          [where c = "\<lparr>rank = 1\<rparr>"
             and self = "example_super_set [5, 6]
                           (example_model Other_inference (Some \<lparr>rank = 1\<rparr>) True)"
             and v = "[5, 6]" and x = "[5, 6]" and super_set = example_super_set
             and flag = 1 and ch = empty_chan and rest = "[]" and f = 7]
        follower_loop_signal
          [where c = "\<lparr>rank = 1\<rparr>"
             and self = "example_model Other_inference (Some \<lparr>rank = 1\<rparr>) True"
             and v = "[5, 6]" and x = "[0, 0]" and super_set = example_super_set
             and flag = 0 and ch = empty_chan and rest = "[]" and f = 7]
  by (simp add: example_model_def empty_chan_def example_super_set_def)

section \<open>The snapshot\<close>

text \<open>
  Claim C9. For a model with a communicator whose base snapshot holds \<open>Y_local\<close>,
  \<open>X_local\<close> and \<open>Y_range\<close>, \<open>__getstate__\<close> returns a snapshot in which \<open>mpi_comm\<close>
  is \<open>None\<close>, those three entries are absent, and every other entry is the base one.
\<close>

theorem getstate_drops_session:
  assumes "mpi_comm self \<noteq> None"
    and "super_getstate self ''Y_local'' \<noteq> None"
    and "super_getstate self ''X_local'' \<noteq> None"
    and "super_getstate self ''Y_range'' \<noteq> None"
  shows "\<exists>dc. getstate super_getstate self = Inr dc
           \<and> dc ''mpi_comm'' = Some None
           \<and> dc ''Y_local'' = None \<and> dc ''X_local'' = None \<and> dc ''Y_range'' = None
           \<and> (\<forall>k. k \<notin> {''mpi_comm'', ''Y_local'', ''X_local'', ''Y_range''}
                  \<longrightarrow> dc k = super_getstate self k)"
  using assms
  by (simp add: getstate_def delitem_def Let_def)

theorem getstate_drops_session_witness:
  "mpi_comm (example_model (VarDTC_minibatch (Some \<lparr>rank = 0\<rparr>)) (Some \<lparr>rank = 0\<rparr>) False) \<noteq> None
   \<and> example_getstate (example_model (VarDTC_minibatch (Some \<lparr>rank = 0\<rparr>)) (Some \<lparr>rank = 0\<rparr>) False)
        ''Y_local'' \<noteq> None
   \<and> example_getstate (example_model (VarDTC_minibatch (Some \<lparr>rank = 0\<rparr>)) (Some \<lparr>rank = 0\<rparr>) False)
        ''X_local'' \<noteq> None
   \<and> example_getstate (example_model (VarDTC_minibatch (Some \<lparr>rank = 0\<rparr>)) (Some \<lparr>rank = 0\<rparr>) False)
        ''Y_range'' \<noteq> None
   \<and> (\<exists>dc. getstate example_getstate
               (example_model (VarDTC_minibatch (Some \<lparr>rank = 0\<rparr>)) (Some \<lparr>rank = 0\<rparr>) False)
             = Inr dc
           \<and> dc ''mpi_comm'' = Some None
           \<and> dc ''Y_local'' = None \<and> dc ''X_local'' = None \<and> dc ''Y_range'' = None
           \<and> dc ''name'' = Some (Some 1) \<and> dc ''Y_list'' = Some (Some 6))"
proof -
  let ?m = "example_model (VarDTC_minibatch (Some \<lparr>rank = 0\<rparr>)) (Some \<lparr>rank = 0\<rparr>) False"
  have h0: "mpi_comm ?m \<noteq> None" by (simp add: example_model_def)
  have h1: "example_getstate ?m ''Y_local'' \<noteq> None" by (simp add: example_getstate_def)
  have h2: "example_getstate ?m ''X_local'' \<noteq> None" by (simp add: example_getstate_def)
  have h3: "example_getstate ?m ''Y_range'' \<noteq> None" by (simp add: example_getstate_def)
  from getstate_drops_session
         [where super_getstate = example_getstate and self = ?m, OF h0 h1 h2 h3]
  obtain dc where dc: "getstate example_getstate ?m = Inr dc"
      "dc ''mpi_comm'' = Some None" "dc ''Y_local'' = None" "dc ''X_local'' = None"
      "dc ''Y_range'' = None"
      "\<forall>k. k \<notin> {''mpi_comm'', ''Y_local'', ''X_local'', ''Y_range''}
            \<longrightarrow> dc k = example_getstate ?m k"
    by blast
  have "dc ''name'' = Some (Some 1)" "dc ''Y_list'' = Some (Some 6)"
    using dc(6) by (simp_all add: example_getstate_def)
  with dc h0 h1 h2 h3 show ?thesis by blast
qed

section \<open>The constructed posterior\<close>

lemma cast_Floating: "cast Floating v = v"
  by (simp add: cast_def)


lemma cast_idem: "cast t (cast t v) = cast t v"
  by (cases t) (simp_all add: cast_def)

lemma init_gamma_entries:
  assumes "init_gamma E a X0 = Inr g"
  shows "shape0 g = shape0 X0 \<and> shape1 g = shape1 X0 \<and> dtype g = dtype X0
         \<and> (\<forall>i j. j < shape1 g \<longrightarrow> entry g i j = cast (dtype X0) (1 / 2))"
  using assms
  by (auto simp add: init_gamma_def gamma_perturbed_def setitem_all_def setitem_gt_def
        setitem_lt_def setitem_scalar_def setitem_all_1d_def getcol0_def Let_def cast_idem
        split: sum.splits if_splits)

lemma init_gamma_half:
  assumes "init_gamma E a X0 = Inr g" and "dtype X0 = Floating"
  shows "shape0 g = shape0 X0 \<and> shape1 g = shape1 X0
         \<and> (\<forall>i j. j < shape1 g \<longrightarrow> entry g i j = 1 / 2)"
  using init_gamma_entries [OF assms(1)] assms(2) by (simp add: cast_Floating)

lemma SSGPLVM_init_mean:
  assumes "SSGPLVM_init E a ch = Inr (ch', m)"
  shows "mean (X m) = fst (case X_arg a of
                             None \<Rightarrow> initialize_latent E (init_arg a) (input_dim a) (Y_arg a)
                           | Some x \<Rightarrow> (x, replicate (input_dim a) 1))"
  using assms
  by (auto simp add: SSGPLVM_init_def Let_def split: sum.splits option.splits prod.splits)

lemma SSGPLVM_init_binary_prob:
  assumes "SSGPLVM_init E a ch = Inr (ch', m)"
  shows "init_gamma E a (mean (X m)) = Inr (binary_prob (X m))"
  using assms
  by (auto simp add: SSGPLVM_init_def Let_def split: sum.splits option.splits prod.splits)

lemma SSGPLVM_init_pi:
  assumes "SSGPLVM_init E a ch = Inr (ch', m)"
  shows "pi_p (variational_prior m) = replicate (input_dim a) (1 / 2)"
  using assms
  by (auto simp add: SSGPLVM_init_def Let_def split: sum.splits option.splits prod.splits)

lemma SSGPLVM_init_randn_mean:
  assumes "SSGPLVM_init (E\<lparr>random_randn := r\<rparr>) a ch = Inr (ch2, m2)"
    and "SSGPLVM_init E a ch = Inr (ch', m)"
  shows "mean (X m2) = mean (X m)"
  using SSGPLVM_init_mean [OF assms(1)] SSGPLVM_init_mean [OF assms(2)]
  by (cases "X_arg a") simp_all

lemma example_init:
  "\<exists>m. SSGPLVM_init example_env (default_args (const_array 50 3 0) 2) empty_chan
          = Inr (empty_chan, m)"
  by (simp add: SSGPLVM_init_def init_gamma_def gamma_perturbed_def init_Z_def
        example_env_def default_args_def const_array_def setitem_all_def Let_def)

lemma example_init2:
  "\<exists>m. SSGPLVM_init (example_env\<lparr>random_randn := example_randn2\<rparr>)
          (default_args (const_array 50 3 0) 2) empty_chan = Inr (empty_chan, m)"
  by (simp add: SSGPLVM_init_def init_gamma_def gamma_perturbed_def init_Z_def
        example_env_def default_args_def const_array_def setitem_all_def Let_def)

lemma example_init_mean:
  assumes "SSGPLVM_init example_env (default_args (const_array 50 3 0) 2) empty_chan
             = Inr (ch', m)"
  shows "mean (X m) = const_array 50 2 0"
  using SSGPLVM_init_mean [OF assms]
  by (simp add: example_env_def default_args_def const_array_def)

text \<open>
  When the latent array is floating point and the grouping is off, every entry of the
  constructed \<open>binary_prob\<close> is 0.5; the prior vector \<open>pi\<close> has \<open>input_dim\<close> entries, each
  0.5, in every construction.
\<close>

lemma floating_latent_binary_prob_half:
  assumes "SSGPLVM_init E a ch = Inr (ch', m)" and "dtype (mean (X m)) = Floating"
  shows "(\<forall>i j. i < shape0 (binary_prob (X m)) \<and> j < shape1 (binary_prob (X m))
               \<longrightarrow> entry (binary_prob (X m)) i j = 1 / 2)
         \<and> length (pi_p (variational_prior m)) = input_dim a
         \<and> (\<forall>p \<in> set (pi_p (variational_prior m)). p = 1 / 2)"
  using init_gamma_half [OF SSGPLVM_init_binary_prob [OF assms(1)] assms(2)]
        SSGPLVM_init_pi [OF assms(1)]
  by simp

text \<open>
  Claim C7, as stated, fails in its first half: the constructed \<open>binary_prob\<close> is not the
  perturbed and clamped field. With a floating-point latent array and every normal draw
  equal to 1 that field holds 0.6, and the posterior holds 0.5.
\<close>

theorem binary_prob_not_perturbed:
  "entry_of (gamma_perturbed example_env (default_args (const_array 50 3 0) 2)
               (const_array 50 2 0)) 0 0 = Some (3 / 5)
   \<and> binary_prob_after
        (SSGPLVM_init example_env (default_args (const_array 50 3 0) 2) empty_chan) 0 0
       = Some (1 / 2)"
  by (simp add: SSGPLVM_init_def init_gamma_def gamma_perturbed_def init_Z_def
        example_env_def default_args_def const_array_def setitem_all_def Let_def
        setitem_gt_def setitem_lt_def setitem_scalar_def entry_of_def binary_prob_after_def
        cast_Floating)

text \<open>
  Claim C7, amended. In every construction whose latent array is floating point, the
  perturbed and clamped field is overwritten by the constant 0.5 before the posterior is
  built: every entry of the constructed \<open>binary_prob\<close> lies in \<open>[1e-9, 1 - 1e-9]\<close>, and
  it is the same whatever the normal draws are. (For an integer or boolean latent array
  the entries take that element type; the statement leaves those constructions out.)
\<close>

theorem init_binary_prob_clamped:
  assumes "SSGPLVM_init E a ch = Inr (ch', m)"
    and "dtype (mean (X m)) = Floating"
    and "i < shape0 (binary_prob (X m))" and "j < shape1 (binary_prob (X m))"
  shows "1 / 10 ^ 9 \<le> entry (binary_prob (X m)) i j
         \<and> entry (binary_prob (X m)) i j \<le> 1 - 1 / 10 ^ 9
         \<and> (\<forall>r ch2 m2. SSGPLVM_init (E\<lparr>random_randn := r\<rparr>) a ch = Inr (ch2, m2)
                \<longrightarrow> entry (binary_prob (X m2)) i j = entry (binary_prob (X m)) i j)"
proof (intro conjI allI impI)
  note g = init_gamma_half [OF SSGPLVM_init_binary_prob [OF assms(1)] assms(2)]
  have half: "entry (binary_prob (X m)) i j = 1 / 2"
    using g assms(4) by simp
  show "1 / 10 ^ 9 \<le> entry (binary_prob (X m)) i j" by (simp add: half)
  show "entry (binary_prob (X m)) i j \<le> 1 - 1 / 10 ^ 9" by (simp add: half)
  fix r ch2 m2
  assume init2: "SSGPLVM_init (E\<lparr>random_randn := r\<rparr>) a ch = Inr (ch2, m2)"
  have same: "mean (X m2) = mean (X m)"
    using SSGPLVM_init_randn_mean [OF init2 assms(1)] .
  then have fl: "dtype (mean (X m2)) = Floating" using assms(2) by simp
  note g2 = init_gamma_half [OF SSGPLVM_init_binary_prob [OF init2] fl]
  have "shape1 (binary_prob (X m2)) = shape1 (binary_prob (X m))"
    using g g2 same by simp
  then have "j < shape1 (binary_prob (X m2))" using assms(4) by simp
  then have "entry (binary_prob (X m2)) i j = 1 / 2" using g2 by blast
  with half show "entry (binary_prob (X m2)) i j = entry (binary_prob (X m)) i j" by simp
qed

theorem init_binary_prob_clamped_witness:
  "\<exists>m m2. SSGPLVM_init example_env (default_args (const_array 50 3 0) 2) empty_chan
            = Inr (empty_chan, m)
       \<and> dtype (mean (X m)) = Floating
       \<and> 49 < shape0 (binary_prob (X m)) \<and> 1 < shape1 (binary_prob (X m))
       \<and> 1 / 10 ^ 9 \<le> entry (binary_prob (X m)) 49 1
       \<and> entry (binary_prob (X m)) 49 1 \<le> 1 - 1 / 10 ^ 9
       \<and> SSGPLVM_init (example_env\<lparr>random_randn := example_randn2\<rparr>)
            (default_args (const_array 50 3 0) 2) empty_chan = Inr (empty_chan, m2)
       \<and> entry (binary_prob (X m2)) 49 1 = entry (binary_prob (X m)) 49 1"
proof -
  let ?a = "default_args (const_array 50 3 0) 2"
  obtain m where m: "SSGPLVM_init example_env ?a empty_chan = Inr (empty_chan, m)"
    using example_init by blast
  obtain m2 where m2: "SSGPLVM_init (example_env\<lparr>random_randn := example_randn2\<rparr>) ?a
                         empty_chan = Inr (empty_chan, m2)"
    using example_init2 by blast
  have mean: "mean (X m) = const_array 50 2 0" using example_init_mean [OF m] .
  then have fl: "dtype (mean (X m)) = Floating" by (simp add: const_array_def)
  have sh: "shape0 (binary_prob (X m)) = 50 \<and> shape1 (binary_prob (X m)) = 2"
    using init_gamma_half [OF SSGPLVM_init_binary_prob [OF m] fl] mean
    by (simp add: const_array_def)
  then have i: "49 < shape0 (binary_prob (X m))" and j: "1 < shape1 (binary_prob (X m))"
    by simp_all
  note t = init_binary_prob_clamped [OF m fl i j]
  from t m2 have "entry (binary_prob (X m2)) 49 1 = entry (binary_prob (X m)) 49 1"
    by blast
  with t m m2 fl i j show ?thesis by blast
qed

text \<open>
  Claim C8. With \<open>group_spike=True\<close>, 50 observations and two latent dimensions, the
  assignment \<open>gamma[:] = gamma[:,0]\<close> cannot broadcast 50 values into rows of length 2:
  the constructor raises \<open>ValueError\<close>.
\<close>

theorem group_spike_construction_fails:
  "SSGPLVM_init example_env ((default_args (const_array 50 3 0) 2)\<lparr>group_spike_arg := True\<rparr>)
     empty_chan = Inl ValueError"
  by (simp add: SSGPLVM_init_def init_gamma_def gamma_perturbed_def
        example_env_def default_args_def const_array_def setitem_all_def Let_def
        setitem_gt_def setitem_lt_def setitem_scalar_def getcol0_def setitem_all_1d_def)


end
